theory Spec2Isabelle
  imports
    Complex_Main
    "HOL-Library.Word"
    "HOL-Library.Char_ord"
    "HOL-Library.List_Lexorder"
    "HOL-Library.Product_Lexorder"
begin

section \<open>The measurement table\<close>

text \<open>
  The functions of \<^verbatim>\<open>data_processor.py\<close> work on a pandas DataFrame with the columns
  \<^verbatim>\<open>date, location, parameter, value, lat, lon\<close>. The frame is modelled as the list of
  its rows, in frame order. A missing cell (NaN) of a column other than the date is
  \<open>None\<close>. The column \<^verbatim>\<open>value\<close> is the field \<open>val\<close> of a row.

  A timestamp is what the library stores for a \<^verbatim>\<open>datetime64[ns]\<close> value and for a
  Timestamp of nanosecond resolution: a signed 64-bit count of nanoseconds since the
  epoch. The least value of the word is NaT, the missing timestamp; every other value
  is a timestamp, from \<open>ts_min\<close> (Timestamp.min) to \<open>ts_max\<close> (Timestamp.max). Time zones
  and other resolutions are not modelled.

  The row type has two parameters: \<open>'d\<close> is the type of a date cell (text as read from
  the file, a timestamp after conversion) and \<open>'v\<close> is the element type of the columns
  \<^verbatim>\<open>value, lat, lon\<close>.
\<close>

type_synonym timestamp = "64 word"

definition NaT :: timestamp where
  "NaT = word_of_int (- 9223372036854775808)"

definition ts_min :: int where
  "ts_min = - 9223372036854775807"

definition ts_max :: int where
  "ts_max = 9223372036854775807"

record ('d, 'v) row =
  date :: 'd
  location :: "string option"
  parameter :: "string option"
  val :: "'v option"
  lat :: "'v option"
  lon :: "'v option"

type_synonym 'v table = "(timestamp, 'v) row list"

datatype error = ParseError | OutOfBoundsDatetime

text \<open>
  A value of a float64 column that is not missing: a finite number or an infinity. The
  arithmetic of float64 is the library's and is not modelled: where a function of the
  source computes with such values, the computation is a parameter of the model.
\<close>

datatype f64 = Finite rat | PosInf | NegInf


text \<open>
  A cell of a column that \<^verbatim>\<open>read_csv\<close> could not read as numbers throughout: the text
  is kept as it is and is not missing.
\<close>

datatype cell = Num rat | Str string

subsection \<open>Library operations\<close>

text \<open>\<^verbatim>\<open>df[mask]\<close>: the rows at which the boolean series is true, in frame order.\<close>

definition mask_select :: "'a list \<Rightarrow> bool list \<Rightarrow> 'a list" where
  "mask_select df m = map fst (filter snd (zip df m))"

text \<open>\<^verbatim>\<open>m1 & m2\<close> on two boolean series.\<close>

definition mask_and :: "bool list \<Rightarrow> bool list \<Rightarrow> bool list" where
  "mask_and m1 m2 = map2 (\<and>) m1 m2"

text \<open>Comparisons of timestamps: any comparison with NaT is false.\<close>

definition ts_ge :: "timestamp \<Rightarrow> timestamp \<Rightarrow> bool" where
  "ts_ge a b = (a \<noteq> NaT \<and> b \<noteq> NaT \<and> sint b \<le> sint a)"

definition ts_lt :: "timestamp \<Rightarrow> timestamp \<Rightarrow> bool" where
  "ts_lt a b = (a \<noteq> NaT \<and> b \<noteq> NaT \<and> sint a < sint b)"

definition day_ns :: int where
  "day_ns = 86400000000000"

text \<open>
  \<^verbatim>\<open>t + pd.Timedelta(days=n)\<close>: NaT stays NaT; a sum outside the range of Timestamp
  raises \<^verbatim>\<open>OutOfBoundsDatetime\<close>.
\<close>

definition add_days :: "timestamp \<Rightarrow> int \<Rightarrow> error + timestamp" where
  "add_days t n =
     (if t = NaT then Inr NaT
      else if sint t + n * day_ns < ts_min \<or> ts_max < sint t + n * day_ns
        then Inl OutOfBoundsDatetime
      else Inr (word_of_int (sint t + n * day_ns)))"

text \<open>
  A bound of the date filter is either an instance of \<^verbatim>\<open>datetime\<close> (a pandas Timestamp
  and NaT are such instances) or some other object (a string, a \<^verbatim>\<open>date\<close>), which
  \<^verbatim>\<open>pd.to_datetime\<close> converts or rejects. The conversion is the library's and is a
  parameter \<open>to_datetime\<close> of the model; on a timestamp it is the identity.
\<close>

datatype 'a date_like = Datetime timestamp | Other 'a

text \<open>
  The conversion of a bound: an instance of \<^verbatim>\<open>datetime\<close> is left as it is (the
  \<^verbatim>\<open>isinstance\<close> test of the source, and the identity of \<^verbatim>\<open>pd.to_datetime\<close> on
  timestamps), anything else goes through \<^verbatim>\<open>pd.to_datetime\<close>.
\<close>

fun pd_to_datetime :: "('a \<Rightarrow> error + timestamp) \<Rightarrow> 'a date_like \<Rightarrow> error + timestamp" where
  "pd_to_datetime to_datetime (Datetime t) = Inr t"
| "pd_to_datetime to_datetime (Other a) = to_datetime a"

text \<open>\<^verbatim>\<open>series.isin(values)\<close> for a list of strings: a missing cell is in no such list.\<close>

fun isin :: "string option \<Rightarrow> string list \<Rightarrow> bool" where
  "isin None vs = False"
| "isin (Some s) vs = (s \<in> set vs)"

section \<open>The filters\<close>

text \<open>
  \<^verbatim>\<open>filter_data_by_date_range\<close>: both bounds are converted when they are not datetimes
  (the start first), one day is added to the end, and the rows with
  \<^verbatim>\<open>date >= start\<close> and \<^verbatim>\<open>date < end\<close> are selected. A failed conversion raises, and so
  does the addition of the day when it leaves the range of Timestamp.
\<close>

definition filter_data_by_date_range ::
  "('a \<Rightarrow> error + timestamp) \<Rightarrow> 'v table \<Rightarrow> 'a date_like \<Rightarrow> 'a date_like \<Rightarrow> error + 'v table" where
  "filter_data_by_date_range to_datetime df start_date end_date =
     (case pd_to_datetime to_datetime start_date of
        Inl e \<Rightarrow> Inl e
      | Inr start_ts \<Rightarrow>
          (case pd_to_datetime to_datetime end_date of
             Inl e \<Rightarrow> Inl e
           | Inr end_ts \<Rightarrow>
               (case add_days end_ts 1 of
                  Inl e \<Rightarrow> Inl e
                | Inr end_ts' \<Rightarrow>
                    Inr (mask_select df
                      (mask_and (map (\<lambda>r. ts_ge (date r) start_ts) df)
                                (map (\<lambda>r. ts_lt (date r) end_ts') df))))))"

text \<open>
  \<^verbatim>\<open>filter_data_by_location\<close>: \<^verbatim>\<open>not locations\<close> holds for \<^verbatim>\<open>None\<close> and for the empty
  list, and then the frame itself is returned.
\<close>

definition filter_data_by_location :: "'v table \<Rightarrow> string list option \<Rightarrow> 'v table" where
  "filter_data_by_location df locations =
     (case locations of
        None \<Rightarrow> df
      | Some ls \<Rightarrow>
          if ls = [] then df
          else mask_select df (map (\<lambda>r. isin (location r) ls) df))"

text \<open>
  \<^verbatim>\<open>filter_data_by_parameter\<close>: the argument is one string or a list of strings; a
  string is wrapped into a one-element list.
\<close>

datatype parameters = Single string | Many "string list"

definition filter_data_by_parameter :: "'v table \<Rightarrow> parameters \<Rightarrow> 'v table" where
  "filter_data_by_parameter df ps =
     (let ps' = (case ps of Single s \<Rightarrow> [s] | Many l \<Rightarrow> l)
      in mask_select df (map (\<lambda>r. isin (parameter r) ps') df))"

section \<open>The aggregations\<close>

text \<open>
  \<^verbatim>\<open>groupby(['date', 'location'])\<close> with the library's defaults: rows with a missing
  key are left out of every group, and the groups come sorted by key. The date of a
  key is given by its count of nanoseconds.
\<close>

definition group_keys :: "'v table \<Rightarrow> (int \<times> string) list" where
  "group_keys df =
     sort (remdups (concat (map (\<lambda>r.
       case location r of
         Some l \<Rightarrow> if date r \<noteq> NaT then [(sint (date r), l)] else []
       | None \<Rightarrow> []) df)))"

text \<open>The values of one group, in frame order; a missing value is not among them.\<close>

definition group_values :: "'v table \<Rightarrow> int \<times> string \<Rightarrow> 'v list" where
  "group_values df k =
     concat (map (\<lambda>r.
       if date r \<noteq> NaT \<and> sint (date r) = fst k \<and> location r = Some (snd k)
       then (case val r of Some v \<Rightarrow> [v] | None \<Rightarrow> [])
       else []) df)"

text \<open>
  The mean of a group. A group with no value at all has the mean NaN. Otherwise the
  mean is computed by the library in float64 arithmetic; this computation is the
  parameter \<open>lib_mean\<close>, whose result \<open>None\<close> is NaN.
\<close>

definition group_mean :: "('v list \<Rightarrow> 'v option) \<Rightarrow> 'v list \<Rightarrow> 'v option" where
  "group_mean lib_mean vs = (if vs = [] then None else lib_mean vs)"

text \<open>
  \<^verbatim>\<open>aggregate_data_for_time_series\<close>: the result frame has the columns
  \<^verbatim>\<open>date, location, value\<close>; a row of it is a triple. The argument \<open>freq\<close> is not read.
\<close>

definition aggregate_data_for_time_series ::
  "('v list \<Rightarrow> 'v option) \<Rightarrow> 'v table \<Rightarrow> string \<Rightarrow> string \<Rightarrow> (int \<times> string \<times> 'v option) list" where
  "aggregate_data_for_time_series lib_mean df param freq =
     (let param_df = mask_select df (map (\<lambda>r. parameter r = Some param) df)
      in map (\<lambda>k. (fst k, snd k, group_mean lib_mean (group_values param_df k)))
           (group_keys param_df))"

text \<open>
  A frame of three or four columns with its column labels, as
  \<^verbatim>\<open>prepare_correlation_data\<close> builds them.
\<close>

record 'r frame =
  columns :: "string list"
  rows :: "'r list"

text \<open>
  The selection of one parameter: the rows of the parameter, \<^verbatim>\<open>value\<close> renamed to the
  parameter's name, projected to \<^verbatim>\<open>date, location\<close> and the renamed column. The model
  takes the name to differ from the labels \<^verbatim>\<open>date, location, parameter, lat, lon\<close> of the
  frame's other columns: the renaming would give two columns the same label otherwise.
\<close>

definition frame_labels :: "string list" where
  "frame_labels = [''date'', ''location'', ''parameter'', ''lat'', ''lon'']"

definition select_parameter ::
  "'v table \<Rightarrow> string \<Rightarrow> (timestamp \<times> string option \<times> 'v option) frame" where
  "select_parameter df param =
     \<lparr>columns = [''date'', ''location'', param],
      rows = map (\<lambda>r. (date r, location r, val r))
               (mask_select df (map (\<lambda>r. parameter r = Some param) df))\<rparr>"

text \<open>
  \<^verbatim>\<open>pd.merge(df1, df2, on=['date', 'location'], how='inner')\<close> on two such frames. Every
  pair of a left and a right row with equal keys gives one row; as the library does, a
  missing key matches a missing key. The left order is kept. A label that both frames
  have outside the keys gets the suffix \<^verbatim>\<open>_x\<close> on the left and \<^verbatim>\<open>_y\<close> on the right.
\<close>

definition merge_columns :: "string list \<Rightarrow> string list \<Rightarrow> string list \<Rightarrow> string list" where
  "merge_columns keys lcols rcols =
     map (\<lambda>c. if c \<notin> set keys \<and> c \<in> set rcols then c @ ''_x'' else c) lcols @
     map (\<lambda>c. if c \<in> set lcols then c @ ''_y'' else c) (filter (\<lambda>c. c \<notin> set keys) rcols)"

definition merge_inner ::
  "(timestamp \<times> string option \<times> 'v option) frame \<Rightarrow>
   (timestamp \<times> string option \<times> 'v option) frame \<Rightarrow>
   (timestamp \<times> string option \<times> 'v option \<times> 'v option) frame" where
  "merge_inner df1 df2 =
     \<lparr>columns = merge_columns [''date'', ''location''] (columns df1) (columns df2),
      rows = concat (map (\<lambda>(d, l, v1).
               map (\<lambda>(d', l', v2). (d, l, v1, v2))
                 (filter (\<lambda>(d', l', v2). d' = d \<and> l' = l) (rows df2))) (rows df1))\<rparr>"

definition prepare_correlation_data ::
  "'v table \<Rightarrow> string \<Rightarrow> string \<Rightarrow> (timestamp \<times> string option \<times> 'v option \<times> 'v option) frame" where
  "prepare_correlation_data df param1 param2 =
     (let df1 = select_parameter df param1;
          df2 = select_parameter df param2
      in merge_inner df1 df2)"

section \<open>The loader\<close>

text \<open>
  The model of \<^verbatim>\<open>load_and_process_data\<close> starts from the frame that \<^verbatim>\<open>read_csv\<close>
  returns: a date cell is the text of the field, or missing. \<^verbatim>\<open>pd.to_datetime\<close> is
  applied to the date column as a whole: how it reads one cell can depend on the
  other cells (the format is taken from the first), and it raises when it cannot
  convert the column. This conversion of a column is the library's and is the parameter
  \<open>to_datetime\<close> of the model. A converted column has one timestamp for each cell.
\<close>

text \<open>\<^verbatim>\<open>df['date'] = series\<close>: the date column is replaced.\<close>

definition set_date :: "('a, 'v) row \<Rightarrow> 'd \<Rightarrow> ('d, 'v) row" where
  "set_date r t =
     \<lparr>date = t, location = location r, parameter = parameter r,
      val = val r, lat = lat r, lon = lon r\<rparr>"

text \<open>\<^verbatim>\<open>dropna(subset=['value', 'lat', 'lon'])\<close>: a row stays when none of the three is missing.\<close>

definition dropna :: "('d, 'v) row list \<Rightarrow> ('d, 'v) row list" where
  "dropna df = filter (\<lambda>r. val r \<noteq> None \<and> lat r \<noteq> None \<and> lon r \<noteq> None) df"

definition load_and_process_data ::
  "('a option list \<Rightarrow> error + timestamp list) \<Rightarrow> ('a option, 'v) row list \<Rightarrow> error + 'v table" where
  "load_and_process_data to_datetime df =
     (case to_datetime (map date df) of
        Inl e \<Rightarrow> Inl e
      | Inr ts \<Rightarrow> Inr (dropna (map2 set_date df ts)))"

section \<open>Sample data\<close>

text \<open>The timestamp of a count of nanoseconds in the range, and of the midnight of a day.\<close>

definition ts_of :: "int \<Rightarrow> timestamp" where
  "ts_of x = word_of_int x"

definition midnight :: "int \<Rightarrow> timestamp" where
  "midnight n = ts_of (n * day_ns)"

text \<open>A fragment of the conversion of date strings, for the examples.\<close>

definition to_datetime_sample :: "string \<Rightarrow> error + timestamp" where
  "to_datetime_sample s =
     (if s = ''2024-01-01'' then Inr (midnight 19723)
      else if s = ''2024-01-02'' then Inr (midnight 19724)
      else if s = ''2024-01-03'' then Inr (midnight 19725)
      else Inl ParseError)"

text \<open>
  The conversion of a column of such strings, all in the one format of the fragment:
  cell by cell, a missing cell to NaT.
\<close>

fun to_datetime_column_sample :: "string option list \<Rightarrow> error + timestamp list" where
  "to_datetime_column_sample [] = Inr []"
| "to_datetime_column_sample (c # cs) =
     (case (case c of None \<Rightarrow> Inr NaT | Some a \<Rightarrow> to_datetime_sample a) of
        Inl e \<Rightarrow> Inl e
      | Inr t \<Rightarrow>
          (case to_datetime_column_sample cs of
             Inl e \<Rightarrow> Inl e
           | Inr ts \<Rightarrow> Inr (t # ts)))"


text \<open>A row of the loaded table with coordinates that play no role in the examples.\<close>

definition mk_row :: "timestamp \<Rightarrow> string \<Rightarrow> string \<Rightarrow> rat \<Rightarrow> (timestamp, f64) row" where
  "mk_row d l p v =
     \<lparr>date = d, location = Some l, parameter = Some p,
      val = Some (Finite v), lat = Some (Finite 0), lon = Some (Finite 0)\<rparr>"

text \<open>A row of the frame that \<^verbatim>\<open>read_csv\<close> returns, the date still text.\<close>

definition raw_row ::
  "string option \<Rightarrow> string option \<Rightarrow> string option \<Rightarrow> 'v option \<Rightarrow> 'v option \<Rightarrow> 'v option
     \<Rightarrow> (string option, 'v) row" where
  "raw_row d l p v a b = \<lparr>date = d, location = l, parameter = p, val = v, lat = a, lon = b\<rparr>"

section \<open>The specification's words\<close>

text \<open>
  The specification counts a row as incomplete when its value, latitude or longitude is
  missing or unparseable, that is, absent or text that is no number. The two
  definitions follow the specification's words, for comparison with \<open>dropna\<close>.
\<close>

definition missing_or_unparseable :: "cell option \<Rightarrow> bool" where
  "missing_or_unparseable c =
     (case c of None \<Rightarrow> True | Some (Str s) \<Rightarrow> True | Some (Num x) \<Rightarrow> False)"

definition incomplete_by_spec :: "('d, cell) row \<Rightarrow> bool" where
  "incomplete_by_spec r =
     (missing_or_unparseable (val r) \<or> missing_or_unparseable (lat r) \<or>
      missing_or_unparseable (lon r))"


section \<open>Properties of the library operations\<close>

lemma mask_select_map: "mask_select df (map P df) = filter P df"
  by (induction df) (simp_all add: mask_select_def)

lemma mask_and_map: "mask_and (map P df) (map Q df) = map (\<lambda>r. P r \<and> Q r) df"
  by (induction df) (simp_all add: mask_and_def)

lemma sint_word_of_int_range:
  "- 9223372036854775808 \<le> x \<Longrightarrow> x \<le> 9223372036854775807 \<Longrightarrow>
     sint (word_of_int x :: 64 word) = x"
  by (simp add: sint_sbintrunc' signed_take_bit_int_eq_self)

lemma sint_NaT: "sint NaT = - 9223372036854775808"
  by (simp add: NaT_def)

lemma NaT_iff: "t = NaT \<longleftrightarrow> sint t = - 9223372036854775808"
  using sint_NaT by (metis signed_word_eqI)

lemma sint_le_ts_max: "sint (t :: timestamp) \<le> ts_max"
  using sint_lt[of t] by (simp add: ts_max_def)

lemma sint_ge_ts_min: "t \<noteq> NaT \<Longrightarrow> ts_min \<le> sint (t :: timestamp)"
  using sint_ge[of t] by (simp add: ts_min_def NaT_iff)

lemma day_ns_pos: "0 < day_ns"
  by (simp add: day_ns_def)

lemma add_days_in_range:
  assumes "t \<noteq> NaT" and "sint t + day_ns \<le> ts_max"
  shows "\<exists>t'. add_days t 1 = Inr t' \<and> t' \<noteq> NaT \<and> sint t' = sint t + day_ns"
proof -
  have lo: "ts_min \<le> sint t + day_ns"
    using sint_ge_ts_min[OF assms(1)] day_ns_pos by simp
  have s: "sint (word_of_int (sint t + day_ns) :: 64 word) = sint t + day_ns"
    using lo assms(2) by (intro sint_word_of_int_range) (simp_all add: ts_min_def ts_max_def)
  have n: "(word_of_int (sint t + day_ns) :: 64 word) \<noteq> NaT"
    using lo s by (simp add: NaT_iff ts_min_def)
  show ?thesis
    using assms lo s n by (simp add: add_days_def)
qed

lemma date_range_filter:
  assumes "pd_to_datetime to_datetime start_date = Inr s"
      and "pd_to_datetime to_datetime end_date = Inr e"
      and "add_days e 1 = Inr e'"
  shows "filter_data_by_date_range to_datetime df start_date end_date =
           Inr (filter (\<lambda>r. ts_ge (date r) s \<and> ts_lt (date r) e') df)"
  using assms by (simp add: filter_data_by_date_range_def mask_and_map mask_select_map)

lemma same_day_before_next:
  assumes "d div day_ns = e div day_ns"
  shows "d < e + day_ns"
proof -
  have "d = day_ns * (e div day_ns) + d mod day_ns"
    using assms by (metis mult_div_mod_eq)
  moreover have "d mod day_ns < day_ns"
    using day_ns_pos by simp
  moreover have "day_ns * (e div day_ns) \<le> e"
    using day_ns_pos by (metis add_increasing2 mult_div_mod_eq order_refl pos_mod_sign)
  ultimately show ?thesis by linarith
qed

lemma isin_conv: "isin c vs = (case c of None \<Rightarrow> False | Some x \<Rightarrow> x \<in> set vs)"
  by (cases c) simp_all

section \<open>The date filter\<close>

text \<open>
  Claim C1, as stated, fails for an end within a day of Timestamp.max: the day added to
  the end leaves the range of Timestamp, and the filter raises instead of returning
  rows. With the end at Timestamp.max itself the result is \<^verbatim>\<open>OutOfBoundsDatetime\<close>.
\<close>

theorem filter_data_by_date_range_end_at_max_counterexample:
  "filter_data_by_date_range to_datetime_sample
     [mk_row (midnight 19723) ''A'' ''PM2.5'' 10]
     (Datetime (midnight 19723)) (Datetime 9223372036854775807) =
   Inl OutOfBoundsDatetime"
  by (simp add: filter_data_by_date_range_def add_days_def NaT_def ts_max_def ts_min_def
      day_ns_def)

text \<open>
  Claim C1, amended. When both bounds convert to timestamps \<open>s\<close> and \<open>e\<close> (neither is
  NaT) and \<open>e + 1 day\<close> is not after Timestamp.max, the date filter returns, in frame
  order, exactly the rows whose date \<open>d\<close> has \<open>s \<le> d < e + 1 day\<close>. A row of the frame
  dated on the calendar day of \<open>e\<close> and not before \<open>s\<close> is in the result; a row dated
  \<open>e + 1 day\<close> is not.
\<close>

theorem filter_data_by_date_range_exact:
  assumes "pd_to_datetime to_datetime start_date = Inr s"
      and "pd_to_datetime to_datetime end_date = Inr e"
      and "s \<noteq> NaT" and "e \<noteq> NaT"
      and "sint e + day_ns \<le> ts_max"
  shows "\<exists>out. filter_data_by_date_range to_datetime df start_date end_date = Inr out \<and>
           out = filter (\<lambda>r. date r \<noteq> NaT \<and> sint s \<le> sint (date r) \<and>
                              sint (date r) < sint e + day_ns) df \<and>
           (\<forall>r \<in> set df. date r \<noteq> NaT \<and> sint s \<le> sint (date r) \<and>
                sint (date r) div day_ns = sint e div day_ns \<longrightarrow> r \<in> set out) \<and>
           (\<forall>r \<in> set df. sint (date r) = sint e + day_ns \<longrightarrow> r \<notin> set out)"
proof -
  obtain e' where e': "add_days e 1 = Inr e'" "e' \<noteq> NaT" "sint e' = sint e + day_ns"
    using add_days_in_range[OF assms(4,5)] by blast
  let ?P = "\<lambda>r::(timestamp, 'b) row. date r \<noteq> NaT \<and> sint s \<le> sint (date r) \<and>
                              sint (date r) < sint e + day_ns"
  have eq: "(\<lambda>r::(timestamp, 'b) row. ts_ge (date r) s \<and> ts_lt (date r) e') = ?P"
    using assms(3) e'(2,3) by (intro ext) (auto simp: ts_ge_def ts_lt_def)
  have res: "filter_data_by_date_range to_datetime df start_date end_date = Inr (filter ?P df)"
    using date_range_filter[OF assms(1,2) e'(1), of df] by (simp only: eq)
  show ?thesis
    using res same_day_before_next by auto
qed

theorem filter_data_by_date_range_exact_witness:
  "pd_to_datetime to_datetime_sample (Other ''2024-01-01'') = Inr (midnight 19723) \<and>
   pd_to_datetime to_datetime_sample (Other ''2024-01-02'') = Inr (midnight 19724) \<and>
   midnight 19723 \<noteq> NaT \<and> midnight 19724 \<noteq> NaT \<and>
   sint (midnight 19724) + day_ns \<le> ts_max \<and>
   filter_data_by_date_range to_datetime_sample
     [mk_row (midnight 19725) ''A'' ''PM2.5'' 4,
      mk_row (ts_of (19724 * day_ns + 1)) ''A'' ''PM2.5'' 3,
      mk_row (midnight 19723) ''B'' ''PM2.5'' 2,
      mk_row (ts_of (19723 * day_ns - 1)) ''B'' ''PM2.5'' 1]
     (Other ''2024-01-01'') (Other ''2024-01-02'') =
   Inr [mk_row (ts_of (19724 * day_ns + 1)) ''A'' ''PM2.5'' 3,
        mk_row (midnight 19723) ''B'' ''PM2.5'' 2]"
proof -
  have h1: "pd_to_datetime to_datetime_sample (Other ''2024-01-01'') = Inr (midnight 19723)"
    by (simp add: to_datetime_sample_def)
  have h2: "pd_to_datetime to_datetime_sample (Other ''2024-01-02'') = Inr (midnight 19724)"
    by (simp add: to_datetime_sample_def)
  have h3: "midnight 19723 \<noteq> NaT"
    by (simp add: midnight_def ts_of_def day_ns_def NaT_def)
  have h4: "midnight 19724 \<noteq> NaT"
    by (simp add: midnight_def ts_of_def day_ns_def NaT_def)
  have h5: "sint (midnight 19724) + day_ns \<le> ts_max"
    by (simp add: midnight_def ts_of_def day_ns_def ts_max_def)
  show ?thesis
    using h1 h2 h3 h4 h5 filter_data_by_date_range_exact [OF h1 h2 h3 h4 h5,
      of "[mk_row (midnight 19725) ''A'' ''PM2.5'' 4,
           mk_row (ts_of (19724 * day_ns + 1)) ''A'' ''PM2.5'' 3,
           mk_row (midnight 19723) ''B'' ''PM2.5'' 2,
           mk_row (ts_of (19723 * day_ns - 1)) ''B'' ''PM2.5'' 1]"]
    by (simp add: mk_row_def midnight_def ts_of_def day_ns_def NaT_def)
qed

text \<open>
  Claim C9, as stated, fails: a start later than the end does not make the range empty
  when the two are less than a day apart. With the start at noon of 2024-01-01 and the
  end at midnight of the same day, a row dated 18:00 of that day is returned.
\<close>

theorem filter_data_by_date_range_start_after_end_counterexample:
  "sint (ts_of (19723 * day_ns + 43200000000000)) > sint (midnight 19723) \<and>
   filter_data_by_date_range to_datetime_sample
     [mk_row (ts_of (19723 * day_ns + 64800000000000)) ''A'' ''PM2.5'' 7]
     (Datetime (ts_of (19723 * day_ns + 43200000000000)))
     (Datetime (midnight 19723)) =
   Inr [mk_row (ts_of (19723 * day_ns + 64800000000000)) ''A'' ''PM2.5'' 7]"
  by (simp add: filter_data_by_date_range_def mask_select_def mask_and_def add_days_def
      ts_ge_def ts_lt_def mk_row_def midnight_def ts_of_def day_ns_def NaT_def ts_min_def
      ts_max_def)

text \<open>
  Claim C9, amended. When both bounds convert to timestamps and the start is at least
  one day after the end, the date filter returns the empty table and raises nothing.
  This covers every start later than the end when both bounds are whole days.
\<close>

theorem filter_data_by_date_range_empty_range:
  assumes "pd_to_datetime to_datetime start_date = Inr s"
      and "pd_to_datetime to_datetime end_date = Inr e"
      and "s \<noteq> NaT" and "e \<noteq> NaT"
      and "sint e + day_ns \<le> sint s \<or>
           (day_ns dvd sint s \<and> day_ns dvd sint e \<and> sint e < sint s)"
  shows "filter_data_by_date_range to_datetime df start_date end_date = Inr []"
proof -
  have le: "sint e + day_ns \<le> sint s"
  proof (cases "sint e + day_ns \<le> sint s")
    case True
    then show ?thesis .
  next
    case False
    with assms(5) have d: "day_ns dvd sint s" "day_ns dvd sint e" "sint e < sint s" by auto
    then obtain a b where ab: "sint s = day_ns * a" "sint e = day_ns * b" by (auto simp: dvd_def)
    with d(3) day_ns_pos have "b < a" by (simp add: mult_less_cancel_left_pos)
    then have "b + 1 \<le> a" by simp
    then have "day_ns * (b + 1) \<le> day_ns * a"
      using day_ns_pos by (simp add: mult_le_cancel_left_pos)
    then show ?thesis using ab by (simp add: distrib_left)
  qed
  have "sint e + day_ns \<le> ts_max"
    using le sint_le_ts_max[of s] by simp
  then obtain e' where e': "add_days e 1 = Inr e'" "e' \<noteq> NaT" "sint e' = sint e + day_ns"
    using add_days_in_range[OF assms(4)] by blast
  have "filter (\<lambda>r::(timestamp, 'b) row. ts_ge (date r) s \<and> ts_lt (date r) e') df = []"
    using le e'(3) by (auto simp: filter_empty_conv ts_ge_def ts_lt_def)
  then show ?thesis
    using date_range_filter[OF assms(1,2) e'(1), of df] by simp
qed

theorem filter_data_by_date_range_empty_range_witness:
  "pd_to_datetime to_datetime_sample (Other ''2024-01-03'') = Inr (midnight 19725) \<and>
   pd_to_datetime to_datetime_sample (Other ''2024-01-02'') = Inr (midnight 19724) \<and>
   midnight 19725 \<noteq> NaT \<and> midnight 19724 \<noteq> NaT \<and>
   (sint (midnight 19724) + day_ns \<le> sint (midnight 19725) \<or>
    (day_ns dvd sint (midnight 19725) \<and> day_ns dvd sint (midnight 19724) \<and>
     sint (midnight 19724) < sint (midnight 19725))) \<and>
   filter_data_by_date_range to_datetime_sample
     [mk_row (midnight 19724) ''A'' ''PM2.5'' 3, mk_row (midnight 19725) ''B'' ''PM2.5'' 2]
     (Other ''2024-01-03'') (Other ''2024-01-02'') = Inr []"
proof -
  have h1: "pd_to_datetime to_datetime_sample (Other ''2024-01-03'') = Inr (midnight 19725)"
    by (simp add: to_datetime_sample_def)
  have h2: "pd_to_datetime to_datetime_sample (Other ''2024-01-02'') = Inr (midnight 19724)"
    by (simp add: to_datetime_sample_def)
  have h3: "midnight 19725 \<noteq> NaT"
    by (simp add: midnight_def ts_of_def day_ns_def NaT_def)
  have h4: "midnight 19724 \<noteq> NaT"
    by (simp add: midnight_def ts_of_def day_ns_def NaT_def)
  have h5: "sint (midnight 19724) + day_ns \<le> sint (midnight 19725) \<or>
    (day_ns dvd sint (midnight 19725) \<and> day_ns dvd sint (midnight 19724) \<and>
     sint (midnight 19724) < sint (midnight 19725))"
    by (simp add: midnight_def ts_of_def day_ns_def)
  show ?thesis
    using h1 h2 h3 h4 h5 filter_data_by_date_range_empty_range [OF h1 h2 h3 h4 h5,
      of "[mk_row (midnight 19724) ''A'' ''PM2.5'' 3, mk_row (midnight 19725) ''B'' ''PM2.5'' 2]"]
    by simp
qed

section \<open>The location and parameter filters\<close>

text \<open>
  Claim C6. With \<^verbatim>\<open>None\<close> or the empty list as selector the location filter returns the
  frame itself, the same rows in the same order; with a non-empty selector it returns
  exactly the rows whose location is in the selector.
\<close>

theorem filter_data_by_location_semantics:
  "filter_data_by_location df None = df \<and>
   filter_data_by_location df (Some []) = df \<and>
   filter_data_by_location df (Some (l # ls)) =
     filter (\<lambda>r. case location r of None \<Rightarrow> False | Some x \<Rightarrow> x \<in> set (l # ls)) df"
proof -
  have "(\<lambda>r::(timestamp, 'a) row. isin (location r) (l # ls)) =
        (\<lambda>r. case location r of None \<Rightarrow> False | Some x \<Rightarrow> x \<in> set (l # ls))"
    by (rule ext) (simp only: isin_conv)
  then show ?thesis
    by (simp add: filter_data_by_location_def mask_select_map)
qed

text \<open>
  Claim C5. The parameter filter has no special case for the empty list: it returns no
  row at all, where the location filter returns the frame unchanged.
\<close>

theorem filter_data_by_parameter_empty_not_identity:
  "filter_data_by_parameter df (Many []) = [] \<and>
   filter_data_by_location df (Some []) = df"
  by (simp add: filter_data_by_parameter_def filter_data_by_location_def mask_select_map
      filter_empty_conv isin_conv split: option.splits)

text \<open>
  Claim C7. The parameter filter gives the same result for a string \<open>p\<close> and for the
  one-element list of \<open>p\<close>: the rows whose parameter is \<open>p\<close>.
\<close>

theorem filter_data_by_parameter_scalar:
  "filter_data_by_parameter df (Single p) = filter_data_by_parameter df (Many [p]) \<and>
   filter_data_by_parameter df (Single p) = filter (\<lambda>r. parameter r = Some p) df"
proof -
  have "(\<lambda>r::(timestamp, 'a) row. isin (parameter r) [p]) = (\<lambda>r. parameter r = Some p)"
    by (rule ext) (simp add: isin_conv split: option.splits)
  then show ?thesis
    by (simp add: filter_data_by_parameter_def mask_select_map)
qed

text \<open>
  Claim C8. Each of the three filters is idempotent: applied to its own result with the
  same arguments it returns that result again. For the date filter, which can raise,
  the second application is on the table the first one returned.
\<close>

theorem filters_idempotent:
  "(case filter_data_by_date_range to_datetime df start_date end_date of
      Inl err \<Rightarrow> Inl err
    | Inr df' \<Rightarrow> filter_data_by_date_range to_datetime df' start_date end_date) =
   filter_data_by_date_range to_datetime df start_date end_date \<and>
   filter_data_by_location (filter_data_by_location df locations) locations =
   filter_data_by_location df locations \<and>
   filter_data_by_parameter (filter_data_by_parameter df ps) ps =
   filter_data_by_parameter df ps"
proof (intro conjI)
  show "(case filter_data_by_date_range to_datetime df start_date end_date of
      Inl err \<Rightarrow> Inl err
    | Inr df' \<Rightarrow> filter_data_by_date_range to_datetime df' start_date end_date) =
   filter_data_by_date_range to_datetime df start_date end_date"
  proof (cases "pd_to_datetime to_datetime start_date")
    case (Inl a)
    then show ?thesis by (simp add: filter_data_by_date_range_def)
  next
    case s: (Inr s)
    show ?thesis
    proof (cases "pd_to_datetime to_datetime end_date")
      case (Inl a)
      then show ?thesis using s by (simp add: filter_data_by_date_range_def)
    next
      case e: (Inr e)
      show ?thesis
      proof (cases "add_days e 1")
        case (Inl a)
        then show ?thesis using s e by (simp add: filter_data_by_date_range_def)
      next
        case e': (Inr e')
        show ?thesis by (simp add: date_range_filter[OF s e e'])
      qed
    qed
  qed
next
  show "filter_data_by_location (filter_data_by_location df locations) locations =
   filter_data_by_location df locations"
    by (simp add: filter_data_by_location_def mask_select_map split: option.splits)
next
  show "filter_data_by_parameter (filter_data_by_parameter df ps) ps =
   filter_data_by_parameter df ps"
    by (simp add: filter_data_by_parameter_def mask_select_map)
qed

section \<open>The time series aggregation\<close>













text \<open>
  Claim C10. The argument \<open>freq\<close> has no effect on the result of the time series
  aggregation: any two values of it give the same table. The groups are by the exact
  timestamp: with \<open>freq = D\<close>, two measurements of one location at midnight and at noon
  of the same day stay two rows, each with the mean of its one value.
\<close>

theorem aggregate_data_for_time_series_ignores_freq:
  "aggregate_data_for_time_series lib_mean df p f1 =
     aggregate_data_for_time_series lib_mean df p f2 \<and>
   aggregate_data_for_time_series lib_mean
     [\<lparr>date = midnight 19723, location = Some ''A'', parameter = Some ''PM2.5'',
       val = Some v1, lat = a1, lon = o1\<rparr>,
      \<lparr>date = ts_of (19723 * day_ns + 43200000000000), location = Some ''A'',
       parameter = Some ''PM2.5'', val = Some v2, lat = a2, lon = o2\<rparr>] ''PM2.5'' ''D'' =
     [(19723 * day_ns, ''A'', lib_mean [v1]),
      (19723 * day_ns + 43200000000000, ''A'', lib_mean [v2])]"
  by (simp add: aggregate_data_for_time_series_def mask_select_def group_keys_def
      group_values_def group_mean_def midnight_def ts_of_def day_ns_def NaT_def)

section \<open>The correlation join\<close>

lemma select_parameter_rows:
  "rows (select_parameter df p) =
     map (\<lambda>r. (date r, location r, val r)) (filter (\<lambda>r. parameter r = Some p) df)"
  by (simp add: select_parameter_def mask_select_map)

lemma in_concat_map: "x \<in> set (concat (map f xs)) \<longleftrightarrow> (\<exists>y \<in> set xs. x \<in> set (f y))"
  by auto

lemma merge_inner_rows_mem:
  "(d, l, v1, v2) \<in> set (rows (merge_inner df1 df2)) \<longleftrightarrow>
     (d, l, v1) \<in> set (rows df1) \<and> (d, l, v2) \<in> set (rows df2)"
proof
  assume "(d, l, v1, v2) \<in> set (rows (merge_inner df1 df2))"
  then show "(d, l, v1) \<in> set (rows df1) \<and> (d, l, v2) \<in> set (rows df2)"
    by (auto simp: merge_inner_def)
next
  let ?f = "\<lambda>(d, l, v1). map (\<lambda>(d', l', v2). (d, l, v1, v2))
              (filter (\<lambda>(d', l', v2). d' = d \<and> l' = l) (rows df2))"
  assume a: "(d, l, v1) \<in> set (rows df1) \<and> (d, l, v2) \<in> set (rows df2)"
  have m: "(d, l, v1, v2) \<in> set (?f (d, l, v1))"
    using a by force
  have r: "rows (merge_inner df1 df2) = concat (map ?f (rows df1))"
    by (simp add: merge_inner_def)
  show "(d, l, v1, v2) \<in> set (rows (merge_inner df1 df2))"
    unfolding r in_concat_map using a m by blast
qed

lemma select_parameter_mem:
  "(d, l, v) \<in> set (rows (select_parameter df p)) \<longleftrightarrow>
     (\<exists>r \<in> set df. parameter r = Some p \<and> date r = d \<and> location r = l \<and> val r = v)"
  by (auto simp: select_parameter_rows)

lemma prepare_rows_mem:
  "(d, l, v1, v2) \<in> set (rows (prepare_correlation_data df p1 p2)) \<longleftrightarrow>
     (\<exists>r1 \<in> set df. \<exists>r2 \<in> set df.
        parameter r1 = Some p1 \<and> parameter r2 = Some p2 \<and>
        date r1 = d \<and> date r2 = d \<and> location r1 = l \<and> location r2 = l \<and>
        val r1 = v1 \<and> val r2 = v2)"
  unfolding prepare_correlation_data_def Let_def merge_inner_rows_mem select_parameter_mem
  by blast

lemma prepare_keys:
  "set (map (\<lambda>(d, l, v1, v2). (d, l)) (rows (prepare_correlation_data df p1 p2))) =
     {(date r, location r) | r. r \<in> set df \<and> parameter r = Some p1} \<inter>
     {(date r, location r) | r. r \<in> set df \<and> parameter r = Some p2}"
proof (rule set_eqI)
  fix k :: "timestamp \<times> string option"
  obtain d l where k: "k = (d, l)" by (cases k)
  have "k \<in> set (map (\<lambda>(d, l, v1, v2). (d, l)) (rows (prepare_correlation_data df p1 p2))) \<longleftrightarrow>
        (\<exists>v1 v2. (d, l, v1, v2) \<in> set (rows (prepare_correlation_data df p1 p2)))"
    unfolding k by force
  also have "\<dots> \<longleftrightarrow> (\<exists>r1 \<in> set df. \<exists>r2 \<in> set df.
      parameter r1 = Some p1 \<and> parameter r2 = Some p2 \<and>
      date r1 = d \<and> date r2 = d \<and> location r1 = l \<and> location r2 = l)"
    unfolding prepare_rows_mem by blast
  also have "\<dots> \<longleftrightarrow> k \<in> {(date r, location r) | r. r \<in> set df \<and> parameter r = Some p1} \<inter>
          {(date r, location r) | r. r \<in> set df \<and> parameter r = Some p2}"
    unfolding k Int_iff mem_Collect_eq prod.inject by (intro iffI; elim bexE exE conjE; metis)
  finally show "k \<in> set (map (\<lambda>(d, l, v1, v2). (d, l)) (rows (prepare_correlation_data df p1 p2))) \<longleftrightarrow>
        k \<in> {(date r, location r) | r. r \<in> set df \<and> parameter r = Some p1} \<inter>
          {(date r, location r) | r. r \<in> set df \<and> parameter r = Some p2}" .
qed

lemma prepare_columns_eq:
  "columns (prepare_correlation_data df p1 p2) =
     merge_columns [''date'', ''location''] [''date'', ''location'', p1] [''date'', ''location'', p2]"
  by (simp add: prepare_correlation_data_def merge_inner_def select_parameter_def)

lemma prepare_columns:
  assumes "p1 \<notin> set frame_labels" and "p2 \<notin> set frame_labels"
  shows "columns (prepare_correlation_data df p1 p2) =
     (if p1 = p2 then [''date'', ''location'', p1 @ ''_x'', p2 @ ''_y'']
      else [''date'', ''location'', p1, p2])"
proof -
  have n: "p1 \<noteq> ''date''" "p1 \<noteq> ''location''" "p2 \<noteq> ''date''" "p2 \<noteq> ''location''"
    using assms by (auto simp: frame_labels_def)
  show ?thesis
    unfolding prepare_columns_eq merge_columns_def using n by auto
qed

lemma prepare_empty:
  assumes "(\<forall>r \<in> set df. parameter r \<noteq> Some p1) \<or> (\<forall>r \<in> set df. parameter r \<noteq> Some p2)"
  shows "rows (prepare_correlation_data df p1 p2) = []"
proof (cases "rows (prepare_correlation_data df p1 p2)")
  case Nil
  then show ?thesis .
next
  case (Cons x xs)
  obtain d l v1 v2 where x: "x = (d, l, v1, v2)" by (cases x)
  have "(d, l, v1, v2) \<in> set (rows (prepare_correlation_data df p1 p2))"
    unfolding Cons x by simp
  then have False using assms unfolding prepare_rows_mem by blast
  then show ?thesis ..
qed

text \<open>
  Claim C2, as stated, fails on the column labels when both parameters are the same:
  the two selections then carry the same label outside the join keys, and the merge
  tells them apart with the suffixes \<^verbatim>\<open>_x\<close> and \<^verbatim>\<open>_y\<close>. For \<^verbatim>\<open>PM2.5\<close> twice the columns
  are \<^verbatim>\<open>date, location, PM2.5_x, PM2.5_y\<close>.
\<close>

theorem prepare_correlation_data_same_parameter_counterexample:
  "columns (prepare_correlation_data
      [mk_row (midnight 19723) ''A'' ''PM2.5'' 10] ''PM2.5'' ''PM2.5'') =
     [''date'', ''location'', ''PM2.5_x'', ''PM2.5_y''] \<and>
   columns (prepare_correlation_data
      [mk_row (midnight 19723) ''A'' ''PM2.5'' 10] ''PM2.5'' ''PM2.5'') \<noteq>
     [''date'', ''location'', ''PM2.5'', ''PM2.5'']"
  unfolding prepare_columns_eq merge_columns_def by simp

text \<open>
  Claim C2, amended. For parameters that are not labels of the frame's other columns,
  the result has the columns \<^verbatim>\<open>date, location, param1, param2\<close> when the parameters
  differ, and \<^verbatim>\<open>date, location, p_x, p_y\<close> when both are \<open>p\<close>. In both cases its
  pairs of date and location are exactly those that occur in a row of the first
  parameter and in a row of the second (a pair that only one of them has is absent);
  a row \<open>(d, l, v1, v2)\<close> is in the result exactly when the frame has a row of the first
  parameter with value \<open>v1\<close> and a row of the second with value \<open>v2\<close>, both at \<open>(d, l)\<close>;
  and the result has no row when either parameter has no row in the frame.
\<close>

theorem prepare_correlation_data_inner_join:
  assumes "p1 \<notin> set frame_labels" and "p2 \<notin> set frame_labels"
  shows "columns (prepare_correlation_data df p1 p2) =
           (if p1 = p2 then [''date'', ''location'', p1 @ ''_x'', p2 @ ''_y'']
            else [''date'', ''location'', p1, p2]) \<and>
         set (map (\<lambda>(d, l, v1, v2). (d, l)) (rows (prepare_correlation_data df p1 p2))) =
           {(date r, location r) | r. r \<in> set df \<and> parameter r = Some p1} \<inter>
           {(date r, location r) | r. r \<in> set df \<and> parameter r = Some p2} \<and>
         (\<forall>d l v1 v2. (d, l, v1, v2) \<in> set (rows (prepare_correlation_data df p1 p2)) \<longleftrightarrow>
           (\<exists>r1 \<in> set df. \<exists>r2 \<in> set df.
              parameter r1 = Some p1 \<and> parameter r2 = Some p2 \<and>
              date r1 = d \<and> date r2 = d \<and> location r1 = l \<and> location r2 = l \<and>
              val r1 = v1 \<and> val r2 = v2)) \<and>
         ((\<forall>r \<in> set df. parameter r \<noteq> Some p1) \<or> (\<forall>r \<in> set df. parameter r \<noteq> Some p2)
            \<longrightarrow> rows (prepare_correlation_data df p1 p2) = [])"
proof (intro conjI allI impI)
  show "columns (prepare_correlation_data df p1 p2) =
           (if p1 = p2 then [''date'', ''location'', p1 @ ''_x'', p2 @ ''_y'']
            else [''date'', ''location'', p1, p2])"
    by (rule prepare_columns[OF assms])
  show "set (map (\<lambda>(d, l, v1, v2). (d, l)) (rows (prepare_correlation_data df p1 p2))) =
           {(date r, location r) | r. r \<in> set df \<and> parameter r = Some p1} \<inter>
           {(date r, location r) | r. r \<in> set df \<and> parameter r = Some p2}"
    by (rule prepare_keys)
  show "(d, l, v1, v2) \<in> set (rows (prepare_correlation_data df p1 p2)) \<longleftrightarrow>
           (\<exists>r1 \<in> set df. \<exists>r2 \<in> set df.
              parameter r1 = Some p1 \<and> parameter r2 = Some p2 \<and>
              date r1 = d \<and> date r2 = d \<and> location r1 = l \<and> location r2 = l \<and>
              val r1 = v1 \<and> val r2 = v2)" for d l v1 v2
    by (rule prepare_rows_mem)
  show "rows (prepare_correlation_data df p1 p2) = []"
    if "(\<forall>r \<in> set df. parameter r \<noteq> Some p1) \<or> (\<forall>r \<in> set df. parameter r \<noteq> Some p2)"
    using that by (rule prepare_empty)
qed

theorem prepare_correlation_data_inner_join_witness:
  "''PM2.5'' \<notin> set frame_labels \<and> ''NO2'' \<notin> set frame_labels \<and>
   columns (prepare_correlation_data
     [mk_row (midnight 19723) ''A'' ''PM2.5'' 10, mk_row (midnight 19723) ''A'' ''NO2'' 7,
      mk_row (midnight 19724) ''A'' ''PM2.5'' 12, mk_row (midnight 19723) ''B'' ''NO2'' 9]
     ''PM2.5'' ''NO2'') = [''date'', ''location'', ''PM2.5'', ''NO2''] \<and>
   rows (prepare_correlation_data
     [mk_row (midnight 19723) ''A'' ''PM2.5'' 10, mk_row (midnight 19723) ''A'' ''NO2'' 7,
      mk_row (midnight 19724) ''A'' ''PM2.5'' 12, mk_row (midnight 19723) ''B'' ''NO2'' 9]
     ''PM2.5'' ''NO2'') = [(midnight 19723, Some ''A'', Some (Finite 10), Some (Finite 7))] \<and>
   list_all (\<lambda>r. parameter r \<noteq> Some ''O3'')
     [mk_row (midnight 19723) ''A'' ''PM2.5'' 10, mk_row (midnight 19723) ''A'' ''NO2'' 7] \<and>
   rows (prepare_correlation_data
     [mk_row (midnight 19723) ''A'' ''PM2.5'' 10, mk_row (midnight 19723) ''A'' ''NO2'' 7]
     ''PM2.5'' ''O3'') = []"
proof -
  have h1: "''PM2.5'' \<notin> set frame_labels" by (simp add: frame_labels_def)
  have h2: "''NO2'' \<notin> set frame_labels" by (simp add: frame_labels_def)
  have h3: "''O3'' \<notin> set frame_labels" by (simp add: frame_labels_def)
  let ?df = "[mk_row (midnight 19723) ''A'' ''PM2.5'' 10, mk_row (midnight 19723) ''A'' ''NO2'' 7,
      mk_row (midnight 19724) ''A'' ''PM2.5'' 12, mk_row (midnight 19723) ''B'' ''NO2'' 9]"
  let ?df2 = "[mk_row (midnight 19723) ''A'' ''PM2.5'' 10, mk_row (midnight 19723) ''A'' ''NO2'' 7]"
  have c: "columns (prepare_correlation_data ?df ''PM2.5'' ''NO2'') =
      [''date'', ''location'', ''PM2.5'', ''NO2'']"
    using prepare_correlation_data_inner_join [OF h1 h2, of ?df] by simp
  have r: "rows (prepare_correlation_data ?df ''PM2.5'' ''NO2'') =
      [(midnight 19723, Some ''A'', Some (Finite 10), Some (Finite 7))]"
    by (simp add: prepare_correlation_data_def merge_inner_def select_parameter_def
        mask_select_def mk_row_def midnight_def ts_of_def day_ns_def)
  have n: "\<forall>r \<in> set ?df2. parameter r \<noteq> Some ''O3''"
    by (simp add: mk_row_def)
  have e: "rows (prepare_correlation_data ?df2 ''PM2.5'' ''O3'') = []"
    using prepare_correlation_data_inner_join [OF h1 h3, of ?df2] n by blast
  show ?thesis using h1 h2 c r n e by (simp add: list_all_iff)
qed

section \<open>Properties of the loader\<close>

lemma set_date_fields:
  "location (set_date r t) = location r" "parameter (set_date r t) = parameter r"
  "val (set_date r t) = val r" "lat (set_date r t) = lat r" "lon (set_date r t) = lon r"
  "date (set_date r t) = t"
  by (simp_all add: set_date_def)

lemma dropna_set_date:
  assumes "length ts = length df"
  shows "map (\<lambda>r. (location r, parameter r, val r, lat r, lon r)) (dropna (map2 set_date df ts)) =
         map (\<lambda>r. (location r, parameter r, val r, lat r, lon r))
           (filter (\<lambda>r. val r \<noteq> None \<and> lat r \<noteq> None \<and> lon r \<noteq> None) df)"
  using assms
proof (induction ts df rule: list_induct2)
  case Nil
  then show ?case by (simp add: dropna_def)
next
  case (Cons t ts r df)
  then show ?case by (simp add: dropna_def set_date_fields)
qed

lemma dropna_dates:
  assumes "length ts = length df"
  shows "map date (dropna (map2 set_date df ts)) =
         map snd (filter (\<lambda>(r, t). val r \<noteq> None \<and> lat r \<noteq> None \<and> lon r \<noteq> None) (zip df ts))"
  using assms
proof (induction ts df rule: list_induct2)
  case Nil
  then show ?case by (simp add: dropna_def)
next
  case (Cons t ts r df)
  then show ?case by (simp add: dropna_def set_date_fields)
qed

lemma length_filter_complete:
  "length (filter (\<lambda>r. val r \<noteq> None \<and> lat r \<noteq> None \<and> lon r \<noteq> None) df) =
     length df - length (filter (\<lambda>r. val r = None \<or> lat r = None \<or> lon r = None) df)"
proof -
  have "length (filter (\<lambda>r. val r = None \<or> lat r = None \<or> lon r = None) df) +
        length (filter (\<lambda>r. \<not> (val r = None \<or> lat r = None \<or> lon r = None)) df) = length df"
    by (rule sum_length_filter_compl)
  then show ?thesis by simp
qed

text \<open>
  Claim C4, as stated, fails: a row whose value is unparseable, text that is no number,
  is not missing and is not dropped. A file of one row with the value \<^verbatim>\<open>abc\<close> has
  \<open>N = 1\<close> and, in the specification's count, \<open>M = 1\<close>; the loader returns the row,
  not \<open>N - M = 0\<close> rows.
\<close>

theorem load_and_process_data_keeps_unparseable_counterexample:
  "load_and_process_data to_datetime_column_sample
     [raw_row (Some ''2024-01-01'') (Some ''A'') (Some ''PM2.5'')
        (Some (Str ''abc'')) (Some (Num 1)) (Some (Num 2))] =
   Inr [\<lparr>date = midnight 19723, location = Some ''A'', parameter = Some ''PM2.5'',
         val = Some (Str ''abc''), lat = Some (Num 1), lon = Some (Num 2)\<rparr>] \<and>
   length [raw_row (Some ''2024-01-01'') (Some ''A'') (Some ''PM2.5'')
        (Some (Str ''abc'')) (Some (Num 1)) (Some (Num 2))] -
   length (filter incomplete_by_spec
     [raw_row (Some ''2024-01-01'') (Some ''A'') (Some ''PM2.5'')
        (Some (Str ''abc'')) (Some (Num 1)) (Some (Num 2))]) = 0"
  by (simp add: load_and_process_data_def to_datetime_sample_def dropna_def set_date_def
      raw_row_def incomplete_by_spec_def missing_or_unparseable_def)

text \<open>
  Claim C4, amended. When the library converts the date column of the file, giving one
  timestamp for each row, the loader returns a table of exactly \<open>N - M\<close> rows, where
  \<open>N\<close> is the number of rows of the file and \<open>M\<close> the number of rows with a missing
  value, latitude or longitude. Every returned row has all three. The returned rows are
  the rows of the file with all three present, in file order, each with its converted
  date and with its other cells unchanged: a missing location or parameter does not
  drop a row.
\<close>

theorem load_and_process_data_drops_missing:
  assumes "to_datetime (map date df) = Inr ts"
      and "length ts = length df"
  shows "\<exists>out. load_and_process_data to_datetime df = Inr out \<and>
           length out =
             length df - length (filter (\<lambda>r. val r = None \<or> lat r = None \<or> lon r = None) df) \<and>
           (\<forall>r \<in> set out. val r \<noteq> None \<and> lat r \<noteq> None \<and> lon r \<noteq> None) \<and>
           map (\<lambda>r. (location r, parameter r, val r, lat r, lon r)) out =
             map (\<lambda>r. (location r, parameter r, val r, lat r, lon r))
               (filter (\<lambda>r. val r \<noteq> None \<and> lat r \<noteq> None \<and> lon r \<noteq> None) df) \<and>
           map date out =
             map snd (filter (\<lambda>(r, t). val r \<noteq> None \<and> lat r \<noteq> None \<and> lon r \<noteq> None)
               (zip df ts))"
proof -
  let ?out = "dropna (map2 set_date df ts)"
  have res: "load_and_process_data to_datetime df = Inr ?out"
    by (simp add: load_and_process_data_def assms(1))
  have m: "map (\<lambda>r. (location r, parameter r, val r, lat r, lon r)) ?out =
           map (\<lambda>r. (location r, parameter r, val r, lat r, lon r))
             (filter (\<lambda>r. val r \<noteq> None \<and> lat r \<noteq> None \<and> lon r \<noteq> None) df)"
    by (rule dropna_set_date[OF assms(2)])
  have "length ?out = length (filter (\<lambda>r. val r \<noteq> None \<and> lat r \<noteq> None \<and> lon r \<noteq> None) df)"
    using arg_cong[OF m, of length] by simp
  then have l: "length ?out =
      length df - length (filter (\<lambda>r. val r = None \<or> lat r = None \<or> lon r = None) df)"
    by (simp only: length_filter_complete)
  have c: "\<forall>r \<in> set ?out. val r \<noteq> None \<and> lat r \<noteq> None \<and> lon r \<noteq> None"
    by (simp add: dropna_def)
  have d: "map date ?out =
      map snd (filter (\<lambda>(r, t). val r \<noteq> None \<and> lat r \<noteq> None \<and> lon r \<noteq> None) (zip df ts))"
    by (rule dropna_dates[OF assms(2)])
  show ?thesis using res l c m d by blast
qed

theorem load_and_process_data_drops_missing_witness:
  "to_datetime_column_sample
     (map date
       [raw_row (Some ''2024-01-01'') (Some ''A'') (Some ''PM2.5'')
          (Some (Finite 10)) (Some (Finite 1)) (Some (Finite 2)),
        raw_row (Some ''2024-01-02'') (Some ''A'') (Some ''PM2.5'')
          None (Some (Finite 1)) (Some (Finite 2)),
        raw_row None None None (Some (Finite 5)) (Some (Finite 1)) (Some (Finite 2))]) =
     Inr [midnight 19723, midnight 19724, NaT] \<and>
   load_and_process_data to_datetime_column_sample
     [raw_row (Some ''2024-01-01'') (Some ''A'') (Some ''PM2.5'')
        (Some (Finite 10)) (Some (Finite 1)) (Some (Finite 2)),
      raw_row (Some ''2024-01-02'') (Some ''A'') (Some ''PM2.5'')
        None (Some (Finite 1)) (Some (Finite 2)),
      raw_row None None None (Some (Finite 5)) (Some (Finite 1)) (Some (Finite 2))] =
   Inr [\<lparr>date = midnight 19723, location = Some ''A'', parameter = Some ''PM2.5'',
         val = Some (Finite 10), lat = Some (Finite 1), lon = Some (Finite 2)\<rparr>,
        \<lparr>date = NaT, location = None, parameter = None,
         val = Some (Finite 5), lat = Some (Finite 1), lon = Some (Finite 2)\<rparr>]"
proof -
  let ?df = "[raw_row (Some ''2024-01-01'') (Some ''A'') (Some ''PM2.5'')
        (Some (Finite 10)) (Some (Finite 1)) (Some (Finite 2)),
      raw_row (Some ''2024-01-02'') (Some ''A'') (Some ''PM2.5'')
        None (Some (Finite 1)) (Some (Finite 2)),
      raw_row None None None (Some (Finite 5)) (Some (Finite 1)) (Some (Finite 2))]"
  have h: "to_datetime_column_sample (map date ?df) = Inr [midnight 19723, midnight 19724, NaT]"
    by (simp add: raw_row_def to_datetime_sample_def)
  have n: "length [midnight 19723, midnight 19724, NaT] = length ?df"
    by simp
  have e: "load_and_process_data to_datetime_column_sample ?df =
   Inr [\<lparr>date = midnight 19723, location = Some ''A'', parameter = Some ''PM2.5'',
         val = Some (Finite 10), lat = Some (Finite 1), lon = Some (Finite 2)\<rparr>,
        \<lparr>date = NaT, location = None, parameter = None,
         val = Some (Finite 5), lat = Some (Finite 1), lon = Some (Finite 2)\<rparr>]"
    by (simp add: load_and_process_data_def to_datetime_sample_def dropna_def set_date_def
        raw_row_def)
  show ?thesis
    using load_and_process_data_drops_missing
        [of to_datetime_column_sample ?df "[midnight 19723, midnight 19724, NaT]", OF h n] h e
    by simp
qed

end
